theory Spec2Isabelle
  imports Main "HOL-Library.AList"
begin

section \<open>Python values, classes and exceptions\<close>

text \<open>
  The module \<^verbatim>\<open>volatility/framework/configuration/__init__.py\<close> defines eight
  requirement classes. They are the only classes whose instances occur in the model;
  \<^verbatim>\<open>ConfigurationSchemaNode\<close> and \<^verbatim>\<open>Configurable\<close> are the
  (abstract) bases imported from \<^verbatim>\<open>interfaces.configuration\<close>.
\<close>

datatype requirement_class =
    InstanceRequirement
  | IntRequirement
  | StringRequirement
  | TranslationLayerRequirement
  | ChoiceRequirement
  | ListRequirement
  | DisjunctionRequirement
  | ConjunctionRequirement

datatype pyclass =
    NoneType
  | BoolType
  | IntType
  | StrType
  | ListType
  | TypeType
  | ObjectType
  | ConfigurationSchemaNode
  | Configurable
  | Req requirement_class

text \<open>
  A Python value: \<^verbatim>\<open>None\<close>, a bool, an (unbounded) int, a str, a list, a class
  object, or an instance of a requirement class with its instance dictionary
  (attribute name to value, in the order of the first assignments). Floats, tuples, dicts and
  instances of other classes are outside the model.
\<close>

datatype pyval =
    PyNone
  | PyBool bool
  | PyInt int
  | PyStr string
  | PyList "pyval list"
  | PyType pyclass
  | PyObj requirement_class "(string \<times> pyval) list"

text \<open>
  Exceptions carry their message. The messages of the \<^verbatim>\<open>raise\<close> statements of
  the module are kept literally; those the interpreter raises by itself are paraphrased.
\<close>

datatype error =
    TypeError string
  | ValueError string
  | IndexError string
  | AttributeError string

text \<open>\<^verbatim>\<open>type(v)\<close>.\<close>

fun type_of :: "pyval \<Rightarrow> pyclass" where
  "type_of PyNone = NoneType"
| "type_of (PyBool _) = BoolType"
| "type_of (PyInt _) = IntType"
| "type_of (PyStr _) = StrType"
| "type_of (PyList _) = ListType"
| "type_of (PyType _) = TypeType"
| "type_of (PyObj c _) = Req c"

text \<open>
  The method resolution order of each class: \<^verbatim>\<open>bool\<close> is a subclass of
  \<^verbatim>\<open>int\<close>; \<^verbatim>\<open>IntRequirement\<close> and \<^verbatim>\<open>StringRequirement\<close> derive from
  \<^verbatim>\<open>InstanceRequirement\<close>; \<^verbatim>\<open>TranslationLayerRequirement\<close> derives from
  \<^verbatim>\<open>ConfigurationSchemaNode\<close> and \<^verbatim>\<open>Configurable\<close>; every other requirement
  class from \<^verbatim>\<open>ConfigurationSchemaNode\<close>.
\<close>

fun mro :: "pyclass \<Rightarrow> pyclass list" where
  "mro BoolType = [BoolType, IntType, ObjectType]"
| "mro ObjectType = [ObjectType]"
| "mro (Req IntRequirement) =
     [Req IntRequirement, Req InstanceRequirement, ConfigurationSchemaNode, ObjectType]"
| "mro (Req StringRequirement) =
     [Req StringRequirement, Req InstanceRequirement, ConfigurationSchemaNode, ObjectType]"
| "mro (Req TranslationLayerRequirement) =
     [Req TranslationLayerRequirement, ConfigurationSchemaNode, Configurable, ObjectType]"
| "mro (Req c) = [Req c, ConfigurationSchemaNode, ObjectType]"
| "mro c = [c, ObjectType]"

text \<open>\<^verbatim>\<open>isinstance(v, c)\<close> for a class \<open>c\<close>.\<close>

definition isinstance :: "pyval \<Rightarrow> pyclass \<Rightarrow> bool" where
  "isinstance v c = (c \<in> set (mro (type_of v)))"

text \<open>
  \<^verbatim>\<open>isinstance(v, t)\<close> for an arbitrary second argument: the interpreter raises
  \<^verbatim>\<open>TypeError\<close> when \<open>t\<close> is not a class.
\<close>

definition py_isinstance :: "pyval \<Rightarrow> pyval \<Rightarrow> error + bool" where
  "py_isinstance v t =
     (case t of
        PyType c \<Rightarrow> Inr (isinstance v c)
      | _ \<Rightarrow> Inl (TypeError ''isinstance() arg 2 must be a type, a tuple of types, or a union''))"

text \<open>\<^verbatim>\<open>c.__name__\<close>.\<close>

fun class_name :: "pyclass \<Rightarrow> string" where
  "class_name NoneType = ''NoneType''"
| "class_name BoolType = ''bool''"
| "class_name IntType = ''int''"
| "class_name StrType = ''str''"
| "class_name ListType = ''list''"
| "class_name TypeType = ''type''"
| "class_name ObjectType = ''object''"
| "class_name ConfigurationSchemaNode = ''ConfigurationSchemaNode''"
| "class_name Configurable = ''Configurable''"
| "class_name (Req InstanceRequirement) = ''InstanceRequirement''"
| "class_name (Req IntRequirement) = ''IntRequirement''"
| "class_name (Req StringRequirement) = ''StringRequirement''"
| "class_name (Req TranslationLayerRequirement) = ''TranslationLayerRequirement''"
| "class_name (Req ChoiceRequirement) = ''ChoiceRequirement''"
| "class_name (Req ListRequirement) = ''ListRequirement''"
| "class_name (Req DisjunctionRequirement) = ''DisjunctionRequirement''"
| "class_name (Req ConjunctionRequirement) = ''ConjunctionRequirement''"

text \<open>Truth value testing, as \<^verbatim>\<open>not\<close>, \<^verbatim>\<open>any\<close> and \<^verbatim>\<open>all\<close> apply it.\<close>

fun truthy :: "pyval \<Rightarrow> bool" where
  "truthy PyNone = False"
| "truthy (PyBool b) = b"
| "truthy (PyInt i) = (i \<noteq> 0)"
| "truthy (PyStr s) = (s \<noteq> [])"
| "truthy (PyList xs) = (xs \<noteq> [])"
| "truthy (PyType _) = True"
| "truthy (PyObj _ _) = True"

text \<open>
  Iteration (\<^verbatim>\<open>for x in v\<close>, \<^verbatim>\<open>any(v)\<close>, \<^verbatim>\<open>all(v)\<close>) and \<^verbatim>\<open>len(v)\<close>: a
  list yields its elements, a str its characters, anything else raises.
\<close>

definition py_iter :: "pyval \<Rightarrow> error + pyval list" where
  "py_iter v =
     (case v of
        PyList xs \<Rightarrow> Inr xs
      | PyStr s \<Rightarrow> Inr (map (\<lambda>c. PyStr [c]) s)
      | _ \<Rightarrow> Inl (TypeError (class_name (type_of v) @ '' object is not iterable'')))"

definition py_len :: "pyval \<Rightarrow> error + int" where
  "py_len v =
     (case v of
        PyList xs \<Rightarrow> Inr (int (length xs))
      | PyStr s \<Rightarrow> Inr (int (length s))
      | _ \<Rightarrow> Inl (TypeError (''object of type '' @ class_name (type_of v) @ '' has no len()'')))"

text \<open>
  \<^verbatim>\<open>a <= b\<close> where one side is an int: bools count as 0 and 1, any other kind of
  operand raises.
\<close>

fun as_number :: "pyval \<Rightarrow> int option" where
  "as_number (PyInt i) = Some i"
| "as_number (PyBool b) = Some (if b then 1 else 0)"
| "as_number _ = None"

definition py_le :: "pyval \<Rightarrow> pyval \<Rightarrow> error + bool" where
  "py_le a b =
     (case (as_number a, as_number b) of
        (Some x, Some y) \<Rightarrow> Inr (x \<le> y)
      | _ \<Rightarrow> Inl (TypeError ''<= not supported between instances''))"

text \<open>
  \<^verbatim>\<open>a == b\<close>: numbers compare by value (\<^verbatim>\<open>True == 1\<close>), strings and lists by
  content, everything else only with its own kind. Instances are compared by their
  state, as the model has no object identity.
\<close>

fun py_eq :: "pyval \<Rightarrow> pyval \<Rightarrow> bool" where
  "py_eq (PyList xs) (PyList ys) = list_all2 py_eq xs ys"
| "py_eq a b =
     (case (as_number a, as_number b) of
        (Some x, Some y) \<Rightarrow> x = y
      | _ \<Rightarrow> a = b)"

text \<open>
  \<^verbatim>\<open>x in c\<close>: a list compares \<open>x\<close> with each element; a str looks for a substring
  and raises unless \<open>x\<close> is a str; the other values are no containers.
\<close>

fun is_substring :: "string \<Rightarrow> string \<Rightarrow> bool" where
  "is_substring s [] = (s = [])"
| "is_substring s (c # cs) = (take (length s) (c # cs) = s \<or> is_substring s cs)"

definition py_contains :: "pyval \<Rightarrow> pyval \<Rightarrow> error + bool" where
  "py_contains c x =
     (case c of
        PyList xs \<Rightarrow> Inr (list_ex (py_eq x) xs)
      | PyStr s \<Rightarrow>
          (case x of
             PyStr t \<Rightarrow> Inr (is_substring t s)
           | _ \<Rightarrow> Inl (TypeError ''in <string> requires string as left operand''))
      | _ \<Rightarrow> Inl (TypeError (''argument of type '' @ class_name (type_of c) @ '' is not iterable'')))"

text \<open>
  Attribute access. \<^verbatim>\<open>instance_type\<close> is a class attribute:
  \<^verbatim>\<open>InstanceRequirement.instance_type = bool\<close>, overridden by
  \<^verbatim>\<open>IntRequirement\<close> (\<^verbatim>\<open>int\<close>) and \<^verbatim>\<open>StringRequirement\<close> (\<^verbatim>\<open>str\<close>).
\<close>

fun class_attr :: "requirement_class \<Rightarrow> string \<Rightarrow> pyval option" where
  "class_attr InstanceRequirement a = (if a = ''instance_type'' then Some (PyType BoolType) else None)"
| "class_attr IntRequirement a = (if a = ''instance_type'' then Some (PyType IntType) else None)"
| "class_attr StringRequirement a = (if a = ''instance_type'' then Some (PyType StrType) else None)"
| "class_attr _ a = None"

definition py_getattr :: "pyval \<Rightarrow> string \<Rightarrow> error + pyval" where
  "py_getattr v a =
     (case v of
        PyObj c d \<Rightarrow>
          (case map_of d a of
             Some x \<Rightarrow> Inr x
           | None \<Rightarrow>
               (case class_attr c a of
                  Some x \<Rightarrow> Inr x
                | None \<Rightarrow> Inl (AttributeError (class_name (Req c) @ '' object has no attribute '' @ a))))
      | _ \<Rightarrow> Inl (AttributeError (class_name (type_of v) @ '' object has no attribute '' @ a)))"

text \<open>
  \<^verbatim>\<open>v.a = x\<close>: only instances have an instance dictionary; on a value of a built-in
  type the assignment raises \<^verbatim>\<open>AttributeError\<close>. The updated object is returned.
\<close>

definition py_setattr :: "pyval \<Rightarrow> string \<Rightarrow> pyval \<Rightarrow> error + pyval" where
  "py_setattr v a x =
     (case v of
        PyObj c d \<Rightarrow> Inr (PyObj c (AList.update a x d))
      | _ \<Rightarrow> Inl (AttributeError (class_name (type_of v) @ '' object has no attribute '' @ a)))"

text \<open>\<^verbatim>\<open>a + s\<close> for a string literal \<open>s\<close>: only a str can be concatenated with it.\<close>

definition py_add_str :: "pyval \<Rightarrow> string \<Rightarrow> error + string" where
  "py_add_str a s =
     (case a of
        PyStr n \<Rightarrow> Inr (n @ s)
      | _ \<Rightarrow> Inl (TypeError (''unsupported operand type(s) for +: '' @ class_name (type_of a) @ '' and str'')))"


section \<open>The collaborators that are not part of the module\<close>

text \<open>
  Modelled from the spec: the resolution context (external collaborator, section 6 of
  the specification). It owns a namespace of currently registered resource names, here
  \<open>memory\<close>, and answers the membership test behind \<^verbatim>\<open>value in context.memory\<close>.
\<close>

record py_context =
  memory :: "string list"

text \<open>
  Modelled from the spec: the membership predicate of the resolution context (section 6),
  \<^verbatim>\<open>value in context.memory\<close>; only a str can be a registered name.
\<close>

definition memory_contains :: "py_context \<Rightarrow> pyval \<Rightarrow> bool" where
  "memory_contains ctx v = (case v of PyStr s \<Rightarrow> s \<in> set (memory ctx) | _ \<Rightarrow> False)"

text \<open>
  Modelled from the spec: \<^verbatim>\<open>ConfigurationSchemaNode.__init__(self, name, description
  = None, default = None, optional = False)\<close> of \<^verbatim>\<open>interfaces.configuration\<close>, which
  is not among the sources. Section 3 of the specification gives every requirement node
  the attributes \<open>name\<close>, \<open>description\<close>, \<open>default\<close> and \<open>optional\<close>; the initializer
  stores its four arguments under these names on its receiver.
\<close>

definition ConfigurationSchemaNode_init ::
  "pyval \<Rightarrow> pyval \<Rightarrow> pyval \<Rightarrow> pyval \<Rightarrow> pyval \<Rightarrow> error + pyval" where
  "ConfigurationSchemaNode_init self name description default' optional =
     (case py_setattr self ''name'' name of
        Inl e \<Rightarrow> Inl e
      | Inr self1 \<Rightarrow>
          (case py_setattr self1 ''description'' description of
             Inl e \<Rightarrow> Inl e
           | Inr self2 \<Rightarrow>
               (case py_setattr self2 ''default'' default' of
                  Inl e \<Rightarrow> Inl e
                | Inr self3 \<Rightarrow> py_setattr self3 ''optional'' optional)))"

text \<open>
  Modelled from the spec: the declared kind of a requirement, the kind of value it
  expects (sections 3 and 4). A scalar requirement expects its \<open>expected_kind\<close>, a
  choice and a resource reference a string, a list requirement a sequence; the
  combinators carry no value type of their own.
\<close>

fun declared_kind :: "requirement_class \<Rightarrow> pyclass option" where
  "declared_kind InstanceRequirement = Some BoolType"
| "declared_kind IntRequirement = Some IntType"
| "declared_kind StringRequirement = Some StrType"
| "declared_kind TranslationLayerRequirement = Some StrType"
| "declared_kind ChoiceRequirement = Some StrType"
| "declared_kind ListRequirement = Some ListType"
| "declared_kind DisjunctionRequirement = None"
| "declared_kind ConjunctionRequirement = None"

text \<open>
  Modelled from the spec: the helper \<^verbatim>\<open>_type_check(self, value, valid_type)\<close>
  inherited from the base class, which is not among the sources. The functions below
  take the helper as a parameter \<open>tc\<close>; this definition is the instance used where a
  concrete run is evaluated. Against a class (lines 84 and 90 of the module) it fails
  with \<^verbatim>\<open>TypeError\<close> unless the value is an instance of the class (section 4.3, step
  1) and returns the value (line 84 stores the result). Against a requirement node
  (line 91) it tells whether the runtime kind of the value is the declared kind of the
  requirement (section 4.3, step 2).
\<close>

definition type_check :: "pyval \<Rightarrow> pyval \<Rightarrow> pyval \<Rightarrow> error + pyval" where
  "type_check self value valid_type =
     (case valid_type of
        PyType c \<Rightarrow>
          (if isinstance value c then Inr value
           else Inl (TypeError (class_name (type_of self) @ '' expected '' @ class_name c)))
      | PyObj c d \<Rightarrow>
          (case declared_kind c of
             Some k \<Rightarrow> Inr (PyBool (type_of value = k))
           | None \<Rightarrow> Inr (PyBool True))
      | _ \<Rightarrow> Inl (TypeError (class_name (type_of self) @ '' expected a type'')))"

section \<open>The requirement classes\<close>

text \<open>
  \<^verbatim>\<open>cls(...)\<close> creates a new instance with an empty instance dictionary and runs
  \<^verbatim>\<open>__init__\<close> on it. The three scalar classes inherit the initializer of
  \<^verbatim>\<open>ConfigurationSchemaNode\<close>; \<open>InstanceRequirement_new c\<close> is the call
  \<^verbatim>\<open>c(name, description, default, optional)\<close> for such a class \<open>c\<close>. A method
  that assigns attributes returns the updated object; a raised exception is the result
  \<open>Inl\<close>. The parameters \<^verbatim>\<open>default\<close> and \<^verbatim>\<open>_context\<close> of the module are
  written \<open>default'\<close> and \<open>context\<close>; \<^verbatim>\<open>*args, **kwargs\<close> are the four
  parameters of the base initializer.
\<close>

definition new_instance :: "requirement_class \<Rightarrow> pyval" where
  "new_instance c = PyObj c []"

definition InstanceRequirement_new ::
  "requirement_class \<Rightarrow> pyval \<Rightarrow> pyval \<Rightarrow> pyval \<Rightarrow> pyval \<Rightarrow> error + pyval" where
  "InstanceRequirement_new c name description default' optional =
     ConfigurationSchemaNode_init (new_instance c) name description default' optional"

subsection \<open>InstanceRequirement, IntRequirement, StringRequirement\<close>

text \<open>
  The message of the exception is built from left to right; its last branch stands for
  \<^verbatim>\<open>__name__\<close> of a value that is no class, which \<^verbatim>\<open>isinstance\<close> has ruled out
  before.
\<close>

definition InstanceRequirement_validate ::
  "pyval \<Rightarrow> pyval \<Rightarrow> py_context \<Rightarrow> pyval \<Rightarrow> error + unit" where
  "InstanceRequirement_validate self value context valid_children =
     (case py_getattr self ''instance_type'' of
        Inl e \<Rightarrow> Inl e
      | Inr t \<Rightarrow>
          (case py_isinstance value t of
             Inl e \<Rightarrow> Inl e
           | Inr ok \<Rightarrow>
               (if \<not> ok then
                  (case py_getattr self ''name'' of
                     Inl e \<Rightarrow> Inl e
                   | Inr n \<Rightarrow>
                       (case py_add_str n '' input only accepts '' of
                          Inl e \<Rightarrow> Inl e
                        | Inr m \<Rightarrow>
                            (case t of
                               PyType c \<Rightarrow> Inl (TypeError (m @ class_name c @ '' type''))
                             | _ \<Rightarrow> Inl (AttributeError ''__name__''))))
                else Inr ())))"

subsection \<open>TranslationLayerRequirement\<close>

text \<open>
  Line 42 calls \<^verbatim>\<open>ConfigurationSchemaNode.__init__(name, description, default,
  optional)\<close> on the class, without \<^verbatim>\<open>self\<close>: the receiver of the call is
  \<open>name\<close>, the parameters \<open>name\<close>, \<open>description\<close> and \<open>default\<close> receive
  \<open>description\<close>, \<open>default\<close> and \<open>optional\<close>, and \<open>optional\<close> keeps its default
  \<^verbatim>\<open>False\<close>. \<^verbatim>\<open>Configurable.__init__\<close> is not among the sources and is the
  parameter \<open>Configurable_init\<close>. The result pairs the instance with the object that
  was passed as \<open>name\<close>, in the state the call of line 42 left it.
\<close>

definition TranslationLayerRequirement_init ::
  "(pyval \<Rightarrow> error + pyval) \<Rightarrow> pyval \<Rightarrow> pyval \<Rightarrow> pyval \<Rightarrow> pyval \<Rightarrow> pyval \<Rightarrow> pyval
     \<Rightarrow> error + (pyval \<times> pyval)" where
  "TranslationLayerRequirement_init Configurable_init self name description default' optional layer_name =
     (case ConfigurationSchemaNode_init name description default' optional (PyBool False) of
        Inl e \<Rightarrow> Inl e
      | Inr name1 \<Rightarrow>
          (case Configurable_init self of
             Inl e \<Rightarrow> Inl e
           | Inr self1 \<Rightarrow>
               (case py_setattr self1 ''_layer_name'' layer_name of
                  Inl e \<Rightarrow> Inl e
                | Inr self2 \<Rightarrow> Inr (self2, name1))))"

definition TranslationLayerRequirement_new ::
  "(pyval \<Rightarrow> error + pyval) \<Rightarrow> pyval \<Rightarrow> pyval \<Rightarrow> pyval \<Rightarrow> pyval \<Rightarrow> pyval
     \<Rightarrow> error + (pyval \<times> pyval)" where
  "TranslationLayerRequirement_new Configurable_init name description default' optional layer_name =
     TranslationLayerRequirement_init Configurable_init (new_instance TranslationLayerRequirement)
       name description default' optional layer_name"

definition TranslationLayerRequirement_validate ::
  "pyval \<Rightarrow> pyval \<Rightarrow> py_context \<Rightarrow> pyval \<Rightarrow> error + unit" where
  "TranslationLayerRequirement_validate self value context valid_children =
     (if \<not> isinstance value StrType then
        Inl (TypeError ''TranslationLayerRequirements only accepts string labels'')
      else if \<not> memory_contains context value then
        (case py_add_str (if truthy value then value else PyStr []) '' is not a memory layer'' of
           Inl e \<Rightarrow> Inl e
         | Inr m \<Rightarrow> Inl (IndexError m))
      else Inr ())"

subsection \<open>ChoiceRequirement\<close>

definition ChoiceRequirement_init ::
  "pyval \<Rightarrow> pyval \<Rightarrow> pyval \<Rightarrow> pyval \<Rightarrow> pyval \<Rightarrow> pyval \<Rightarrow> error + pyval" where
  "ChoiceRequirement_init self choices name description default' optional =
     (case ConfigurationSchemaNode_init self name description default' optional of
        Inl e \<Rightarrow> Inl e
      | Inr self1 \<Rightarrow>
          (if \<not> isinstance choices ListType then
             Inl (TypeError ''ChoiceRequirement takes a list of strings as choices'')
           else
             (case py_iter choices of
                Inl e \<Rightarrow> Inl e
              | Inr cs \<Rightarrow>
                  (if list_ex (\<lambda>choice. \<not> isinstance choice StrType) cs then
                     Inl (TypeError ''ChoiceRequirement takes a list of strings as choices'')
                   else py_setattr self1 ''_choices'' choices))))"

definition ChoiceRequirement_new ::
  "pyval \<Rightarrow> pyval \<Rightarrow> pyval \<Rightarrow> pyval \<Rightarrow> pyval \<Rightarrow> error + pyval" where
  "ChoiceRequirement_new choices name description default' optional =
     ChoiceRequirement_init (new_instance ChoiceRequirement) choices name description default' optional"

definition ChoiceRequirement_validate ::
  "pyval \<Rightarrow> pyval \<Rightarrow> py_context \<Rightarrow> pyval \<Rightarrow> error + unit" where
  "ChoiceRequirement_validate self value context valid_children =
     (case py_getattr self ''_choices'' of
        Inl e \<Rightarrow> Inl e
      | Inr cs \<Rightarrow>
          (case py_contains cs value of
             Inl e \<Rightarrow> Inl e
           | Inr found \<Rightarrow>
               (if \<not> found then
                  Inl (ValueError ''Value is not within the set of available choices'')
                else Inr ())))"

subsection \<open>DisjunctionRequirement and ConjunctionRequirement\<close>

definition DisjunctionRequirement_validate ::
  "pyval \<Rightarrow> pyval \<Rightarrow> py_context \<Rightarrow> pyval \<Rightarrow> error + unit" where
  "DisjunctionRequirement_validate self value context valid_children =
     (if valid_children = PyNone then
        Inl (ValueError ''A Disjunction requirement cannot exist without children'')
      else
        (case py_iter valid_children of
           Inl e \<Rightarrow> Inl e
         | Inr cs \<Rightarrow>
             (if \<not> list_ex truthy cs then
                Inl (ValueError ''No valid children to support the Disjunction Requirement'')
              else Inr ())))"

definition ConjunctionRequirement_validate ::
  "pyval \<Rightarrow> pyval \<Rightarrow> py_context \<Rightarrow> pyval \<Rightarrow> error + unit" where
  "ConjunctionRequirement_validate self value context valid_children =
     (if valid_children = PyNone then
        Inl (ValueError ''A Conjunction requirement cannot exist without children'')
      else
        (case py_iter valid_children of
           Inl e \<Rightarrow> Inl e
         | Inr cs \<Rightarrow>
             (if \<not> list_all truthy cs then
                Inl (ValueError ''An invalid child prevents the Conjunction Requirement'')
              else Inr ())))"


subsection \<open>ListRequirement\<close>

text \<open>
  The helper \<^verbatim>\<open>self._type_check\<close> is the parameter \<open>tc\<close>, applied to the
  instance, the value and the expected type. The constructor takes
  \<open>max_elements\<close> before \<open>min_elements\<close>, as the module does.
\<close>

type_synonym type_checker = "pyval \<Rightarrow> pyval \<Rightarrow> pyval \<Rightarrow> error + pyval"

definition ListRequirement_init ::
  "type_checker \<Rightarrow> pyval \<Rightarrow> pyval \<Rightarrow> pyval \<Rightarrow> pyval \<Rightarrow> pyval \<Rightarrow> pyval \<Rightarrow> pyval \<Rightarrow> pyval
     \<Rightarrow> error + pyval" where
  "ListRequirement_init tc self element_type max_elements min_elements name description default' optional =
     (case ConfigurationSchemaNode_init self name description default' optional of
        Inl e \<Rightarrow> Inl e
      | Inr self1 \<Rightarrow>
          (if isinstance element_type (Req ListRequirement) then
             Inl (TypeError ''ListRequirements cannot contain ListRequirements'')
           else
             (case tc self1 element_type (PyType ConfigurationSchemaNode) of
                Inl e \<Rightarrow> Inl e
              | Inr checked \<Rightarrow>
                  (case py_setattr self1 ''element_type'' checked of
                     Inl e \<Rightarrow> Inl e
                   | Inr self2 \<Rightarrow>
                       (case py_setattr self2 ''min_elements'' min_elements of
                          Inl e \<Rightarrow> Inl e
                        | Inr self3 \<Rightarrow> py_setattr self3 ''max_elements'' max_elements)))))"

fun type_check_elements :: "type_checker \<Rightarrow> pyval \<Rightarrow> pyval list \<Rightarrow> error + pyval list" where
  "type_check_elements tc self [] = Inr []"
| "type_check_elements tc self (element # elements) =
     (case py_getattr self ''element_type'' of
        Inl e \<Rightarrow> Inl e
      | Inr et \<Rightarrow>
          (case tc self element et of
             Inl e \<Rightarrow> Inl e
           | Inr r \<Rightarrow>
               (case type_check_elements tc self elements of
                  Inl e \<Rightarrow> Inl e
                | Inr rs \<Rightarrow> Inr (r # rs))))"

definition within_bounds :: "pyval \<Rightarrow> pyval \<Rightarrow> error + bool" where
  "within_bounds self value =
     (case py_getattr self ''min_elements'' of
        Inl e \<Rightarrow> Inl e
      | Inr lo \<Rightarrow>
          (case py_len value of
             Inl e \<Rightarrow> Inl e
           | Inr n \<Rightarrow>
               (case py_le lo (PyInt n) of
                  Inl e \<Rightarrow> Inl e
                | Inr reached \<Rightarrow>
                    (if \<not> reached then Inr False
                     else
                       (case py_getattr self ''max_elements'' of
                          Inl e \<Rightarrow> Inl e
                        | Inr hi \<Rightarrow> py_le (PyInt n) hi)))))"

definition ListRequirement_new ::
  "type_checker \<Rightarrow> pyval \<Rightarrow> pyval \<Rightarrow> pyval \<Rightarrow> pyval \<Rightarrow> pyval \<Rightarrow> pyval \<Rightarrow> pyval
     \<Rightarrow> error + pyval" where
  "ListRequirement_new tc element_type max_elements min_elements name description default' optional =
     ListRequirement_init tc (new_instance ListRequirement) element_type max_elements min_elements
       name description default' optional"

text \<open>
  \<open>validate\<close> is the method call \<^verbatim>\<open>node.validate(value, context,
  valid_children)\<close>, resolved on the class of \<open>node\<close> (the three scalar classes share
  the method of \<^verbatim>\<open>InstanceRequirement\<close>; no instance dictionary is taken to shadow
  the method). \<open>type_check_elements\<close> is the list
  comprehension of line 91, \<open>within_bounds\<close> the chained comparison of line 93 (its
  right half is evaluated only when the left half holds) and \<open>validate_elements\<close> the
  loop of lines 95 and 96, which passes no \<open>valid_children\<close>.
\<close>

function ListRequirement_validate ::
    "type_checker \<Rightarrow> pyval \<Rightarrow> pyval \<Rightarrow> py_context \<Rightarrow> pyval \<Rightarrow> error + unit"
  and validate ::
    "type_checker \<Rightarrow> pyval \<Rightarrow> pyval \<Rightarrow> py_context \<Rightarrow> pyval \<Rightarrow> error + unit"
  and validate_elements ::
    "type_checker \<Rightarrow> pyval \<Rightarrow> pyval list \<Rightarrow> py_context \<Rightarrow> error + unit"
where
  "ListRequirement_validate tc self value context valid_children =
     (case tc self value (PyType ListType) of
        Inl e \<Rightarrow> Inl e
      | Inr _ \<Rightarrow>
          (case py_iter value of
             Inl e \<Rightarrow> Inl e
           | Inr elements \<Rightarrow>
               (case type_check_elements tc self elements of
                  Inl e \<Rightarrow> Inl e
                | Inr results \<Rightarrow>
                    (if \<not> list_all truthy results then
                       Inl (TypeError ''At least one element in the list is not of the correct type.'')
                     else
                       (case within_bounds self value of
                          Inl e \<Rightarrow> Inl e
                        | Inr ok \<Rightarrow>
                            (if \<not> ok then
                               Inl (TypeError ''List option provided more or less elements than allowed.'')
                             else validate_elements tc self elements context))))))"
| "validate tc node value context valid_children =
     (case node of
        PyObj c d \<Rightarrow>
          (case c of
             InstanceRequirement \<Rightarrow> InstanceRequirement_validate node value context valid_children
           | IntRequirement \<Rightarrow> InstanceRequirement_validate node value context valid_children
           | StringRequirement \<Rightarrow> InstanceRequirement_validate node value context valid_children
           | TranslationLayerRequirement \<Rightarrow>
               TranslationLayerRequirement_validate node value context valid_children
           | ChoiceRequirement \<Rightarrow> ChoiceRequirement_validate node value context valid_children
           | ListRequirement \<Rightarrow> ListRequirement_validate tc node value context valid_children
           | DisjunctionRequirement \<Rightarrow> DisjunctionRequirement_validate node value context valid_children
           | ConjunctionRequirement \<Rightarrow> ConjunctionRequirement_validate node value context valid_children)
      | _ \<Rightarrow> Inl (AttributeError (class_name (type_of node) @ '' object has no attribute validate'')))"
| "validate_elements tc self [] context = Inr ()"
| "validate_elements tc self (element # elements) context =
     (case py_getattr self ''element_type'' of
        Inl e \<Rightarrow> Inl e
      | Inr et \<Rightarrow>
          (case validate tc et element context PyNone of
             Inl e \<Rightarrow> Inl e
           | Inr _ \<Rightarrow> validate_elements tc self elements context))"
  by pat_completeness auto
termination
  apply (relation "inv_image (less_than <*lex*> less_than <*lex*> less_than)
     (\<lambda>x. case x of
        Inl (tc, self, value, context, valid_children) \<Rightarrow> (size self, 1::nat, 0::nat)
      | Inr (Inl (tc, node, value, context, valid_children)) \<Rightarrow> (size node, 2, 0)
      | Inr (Inr (tc, self, elements, context)) \<Rightarrow> (size self, 0, length elements))")
     apply (simp add: wf_inv_image wf_lex_prod)
    apply simp_all
  subgoal for self et
  proof (cases self)
    case (PyObj c d)
    assume get: "py_getattr self ''element_type'' = Inr et"
    have "class_attr c ''element_type'' = None"
      by (cases c) simp_all
    with get PyObj have "map_of d ''element_type'' = Some et"
      by (simp add: py_getattr_def split: option.splits)
    then have "(''element_type'', et) \<in> set d"
      by (rule map_of_SomeD)
    then have "size et < Suc (size_list (size_prod (\<lambda>_. 0) size) d)"
      by (induction d) auto
    then show ?thesis
      by (simp add: PyObj)
  qed (simp_all add: py_getattr_def)
  done

text \<open>
  The defining equations of \<open>ListRequirement_validate\<close> and \<open>validate\<close> have no
  pattern on their left; they are unfolded where a proof asks for them.
\<close>

declare ListRequirement_validate.simps [simp del] validate.simps [simp del]

section \<open>Properties\<close>

text \<open>
  The failure kinds of the specification are the exceptions of the module:
  \<^item> \<open>TypeMismatch\<close> is the \<^verbatim>\<open>TypeError\<close> of \<^verbatim>\<open>InstanceRequirement.validate\<close>
    and of \<^verbatim>\<open>TranslationLayerRequirement.validate\<close>;
  \<^item> \<open>InvalidSchema\<close> is the \<^verbatim>\<open>TypeError\<close> a constructor raises;
  \<^item> \<open>NotInChoiceSet\<close> is the \<^verbatim>\<open>ValueError\<close> of \<^verbatim>\<open>ChoiceRequirement.validate\<close>;
  \<^item> \<open>ElementInvalid\<close> is \<^verbatim>\<open>TypeError("At least one element in the list is not of
    the correct type.")\<close> and \<open>ArityViolation\<close> is \<^verbatim>\<open>TypeError("List option provided
    more or less elements than allowed.")\<close>;
  \<^item> \<open>UnresolvedReference\<close> is the \<^verbatim>\<open>IndexError\<close> of
    \<^verbatim>\<open>TranslationLayerRequirement.validate\<close>;
  \<^item> \<open>MissingChildResults\<close> is \<^verbatim>\<open>ValueError("A Disjunction requirement cannot exist
    without children")\<close> (and its Conjunction twin), \<open>NoValidChild\<close> is
    \<^verbatim>\<open>ValueError("No valid children to support the Disjunction Requirement")\<close> and
    \<open>AnyChildInvalid\<close> is \<^verbatim>\<open>ValueError("An invalid child prevents the Conjunction
    Requirement")\<close>.
  A call that returns normally has the result \<open>Inr ()\<close>.
\<close>

subsection \<open>Auxiliary facts\<close>

lemma InstanceRequirement_new_eq:
  "InstanceRequirement_new c name description default' optional =
     Inr (PyObj c [(''name'', name), (''description'', description),
                   (''default'', default'), (''optional'', optional)])"
  by (simp add: InstanceRequirement_new_def ConfigurationSchemaNode_init_def new_instance_def
      py_setattr_def)

lemma mro_Req:
  "x \<in> set (mro (Req c)) \<Longrightarrow>
     x = Req c \<or> x = Req InstanceRequirement \<or> x = ConfigurationSchemaNode \<or> x = Configurable
     \<or> x = ObjectType"
  by (cases c) auto


lemma isinstance_StrType: "isinstance v StrType = (type_of v = StrType)"
  by (cases v) (auto simp: isinstance_def dest: mro_Req)


lemma isinstance_ListType: "isinstance v ListType = (type_of v = ListType)"
  by (cases v) (auto simp: isinstance_def dest: mro_Req)

lemma py_add_str_TypeError:
  "(\<exists>s. py_add_str n t = Inr s) \<or> (\<exists>m. py_add_str n t = Inl (TypeError m))"
  by (cases n) (simp_all add: py_add_str_def)

lemma scalar_kind:
  assumes "class_attr c ''instance_type'' = Some (PyType kind)"
  shows "(c = InstanceRequirement \<and> kind = BoolType) \<or> (c = IntRequirement \<and> kind = IntType)
       \<or> (c = StringRequirement \<and> kind = StrType)"
  using assms by (cases c) simp_all

lemma scalar_validate:
  assumes kind: "class_attr c ''instance_type'' = Some (PyType kind)"
    and new: "InstanceRequirement_new c name description default' optional = Inr node"
  shows "isinstance v kind \<Longrightarrow> InstanceRequirement_validate node v ctx valid_children = Inr ()"
    and "\<not> isinstance v kind \<Longrightarrow>
      \<exists>m. InstanceRequirement_validate node v ctx valid_children = Inl (TypeError m)"
proof -
  from new have node: "node = PyObj c [(''name'', name), (''description'', description),
      (''default'', default'), (''optional'', optional)]"
    by (simp add: InstanceRequirement_new_eq)
  have attr: "py_getattr node ''instance_type'' = Inr (PyType kind)"
    using kind by (simp add: node py_getattr_def)
  have nm: "py_getattr node ''name'' = Inr name"
    by (simp add: node py_getattr_def)
  show "isinstance v kind \<Longrightarrow> InstanceRequirement_validate node v ctx valid_children = Inr ()"
    by (simp add: InstanceRequirement_validate_def attr py_isinstance_def)
  show "\<not> isinstance v kind \<Longrightarrow>
      \<exists>m. InstanceRequirement_validate node v ctx valid_children = Inl (TypeError m)"
    using py_add_str_TypeError [of name "'' input only accepts ''"]
    by (auto simp: InstanceRequirement_validate_def attr nm py_isinstance_def)
qed


lemma ChoiceRequirement_new_strings:
  "ChoiceRequirement_new (PyList (map PyStr ss)) name description default' optional =
     Inr (PyObj ChoiceRequirement [(''name'', name), (''description'', description),
        (''default'', default'), (''optional'', optional), (''_choices'', PyList (map PyStr ss))])"
proof -
  have "\<not> list_ex (\<lambda>choice. \<not> isinstance choice StrType) (map PyStr ss)"
    by (simp add: list_ex_iff isinstance_StrType)
  then show ?thesis
    by (simp add: ChoiceRequirement_new_def ChoiceRequirement_init_def
        ConfigurationSchemaNode_init_def new_instance_def py_setattr_def py_iter_def
        isinstance_ListType)
qed

lemma all_strings:
  assumes "\<not> list_ex (\<lambda>choice. \<not> isinstance choice StrType) cs"
  shows "\<exists>ss. cs = map PyStr ss"
  using assms
proof (induction cs)
  case Nil
  then show ?case by simp
next
  case (Cons c cs)
  then obtain ss where ss: "cs = map PyStr ss"
    by auto
  from Cons.prems have "type_of c = StrType"
    by (simp add: isinstance_StrType)
  then obtain s where "c = PyStr s"
    by (cases c) simp_all
  with ss have "c # cs = map PyStr (s # ss)"
    by simp
  then show ?case ..
qed

lemma ChoiceRequirement_new_cases:
  "ChoiceRequirement_new choices name description default' optional =
     Inl (TypeError ''ChoiceRequirement takes a list of strings as choices'')
   \<or> (\<exists>ss. choices = PyList (map PyStr ss))"
proof (cases choices)
  case (PyList cs)
  show ?thesis
  proof (cases "list_ex (\<lambda>choice. \<not> isinstance choice StrType) cs")
    case True
    then show ?thesis
      by (simp add: PyList ChoiceRequirement_new_def ChoiceRequirement_init_def
          ConfigurationSchemaNode_init_def new_instance_def py_setattr_def py_iter_def
          isinstance_ListType)
  next
    case False
    then show ?thesis
      using all_strings [of cs] by (simp add: PyList)
  qed
qed (simp_all add: ChoiceRequirement_new_def ChoiceRequirement_init_def
    ConfigurationSchemaNode_init_def new_instance_def py_setattr_def isinstance_ListType)

lemma not_None_contained:
  "\<not> list_ex (py_eq PyNone) (map PyStr ss)"
  by (auto simp: list_ex_iff)

lemma isinstance_ListRequirement:
  "isinstance v (Req ListRequirement) = (\<exists>d. v = PyObj ListRequirement d)"
proof (cases v)
  case (PyObj c d)
  then show ?thesis
    by (cases c) (simp_all add: isinstance_def)
qed (simp_all add: isinstance_def)

lemma ListRequirement_new_eq:
  "ListRequirement_new tc element_type max_elements min_elements name description default' optional =
     (if isinstance element_type (Req ListRequirement) then
        Inl (TypeError ''ListRequirements cannot contain ListRequirements'')
      else
        (case tc (PyObj ListRequirement [(''name'', name), (''description'', description),
                    (''default'', default'), (''optional'', optional)])
                element_type (PyType ConfigurationSchemaNode) of
           Inl e \<Rightarrow> Inl e
         | Inr checked \<Rightarrow>
             Inr (PyObj ListRequirement [(''name'', name), (''description'', description),
                    (''default'', default'), (''optional'', optional),
                    (''element_type'', checked), (''min_elements'', min_elements),
                    (''max_elements'', max_elements)])))"
  by (simp add: ListRequirement_new_def ListRequirement_init_def ConfigurationSchemaNode_init_def
      new_instance_def py_setattr_def split: sum.split)



lemma list_ex_truthy_bools: "list_ex truthy (map PyBool bs) = (True \<in> set bs)"
  by (induction bs) auto

lemma list_all_truthy_bools: "list_all truthy (map PyBool bs) = (False \<notin> set bs)"
  by (induction bs) auto

lemma all_true_iff: "(\<forall>b \<in> set bs. b) = (False \<notin> set bs)"
  by (induction bs) auto

lemma py_setattr_other:
  assumes "py_setattr obj a x = Inr obj'" and "b \<noteq> a"
  shows "py_getattr obj' b = py_getattr obj b"
  using assms by (cases obj) (auto simp: py_setattr_def py_getattr_def update_conv')

subsection \<open>Scalar requirements\<close>




text \<open>
  Claim C2, as the code has it. An absent value, \<^verbatim>\<open>None\<close>, gets no pass from
  \<open>optional = True\<close>. For a scalar requirement the outcome of \<^verbatim>\<open>validate\<close> is the
  same whatever the flag is, and \<^verbatim>\<open>None\<close> is rejected with \<^verbatim>\<open>TypeError\<close>; the
  resource reference rejects \<^verbatim>\<open>None\<close> with \<^verbatim>\<open>TypeError\<close> and a choice
  requirement rejects it with \<^verbatim>\<open>ValueError\<close>, also when the node was constructed
  with \<open>optional = True\<close>.
\<close>

theorem validate_ignores_optional:
  "(class_attr c ''instance_type'' = Some (PyType kind) \<longrightarrow>
      InstanceRequirement_new c name description default' optional = Inr node \<longrightarrow>
      InstanceRequirement_new c name description default' optional2 = Inr node2 \<longrightarrow>
      (\<exists>m. InstanceRequirement_validate node PyNone ctx valid_children = Inl (TypeError m))
      \<and> InstanceRequirement_validate node v ctx valid_children =
          InstanceRequirement_validate node2 v ctx valid_children)
   \<and> TranslationLayerRequirement_validate self PyNone ctx valid_children =
       Inl (TypeError ''TranslationLayerRequirements only accepts string labels'')
   \<and> (ChoiceRequirement_new choices name description default' optional = Inr cnode \<longrightarrow>
       ChoiceRequirement_validate cnode PyNone ctx valid_children =
         Inl (ValueError ''Value is not within the set of available choices''))"
proof (intro conjI impI)
  assume kind: "class_attr c ''instance_type'' = Some (PyType kind)"
    and new: "InstanceRequirement_new c name description default' optional = Inr node"
    and new2: "InstanceRequirement_new c name description default' optional2 = Inr node2"
  have "\<not> isinstance PyNone kind"
    using scalar_kind [OF kind] by (auto simp: isinstance_def)
  then show "\<exists>m. InstanceRequirement_validate node PyNone ctx valid_children = Inl (TypeError m)"
    by (rule scalar_validate(2) [OF kind new])
  from new new2 have "py_getattr node ''instance_type'' = py_getattr node2 ''instance_type''"
    and "py_getattr node ''name'' = py_getattr node2 ''name''"
    by (auto simp: InstanceRequirement_new_eq py_getattr_def)
  then show "InstanceRequirement_validate node v ctx valid_children =
      InstanceRequirement_validate node2 v ctx valid_children"
    by (simp only: InstanceRequirement_validate_def)
next
  show "TranslationLayerRequirement_validate self PyNone ctx valid_children =
       Inl (TypeError ''TranslationLayerRequirements only accepts string labels'')"
    by (simp add: TranslationLayerRequirement_validate_def isinstance_StrType)
next
  assume new: "ChoiceRequirement_new choices name description default' optional = Inr cnode"
  then obtain ss where ss: "choices = PyList (map PyStr ss)"
    using ChoiceRequirement_new_cases [of choices name description default' optional] by auto
  with new have "py_getattr cnode ''_choices'' = Inr (PyList (map PyStr ss))"
    by (auto simp: ChoiceRequirement_new_strings py_getattr_def)
  then show "ChoiceRequirement_validate cnode PyNone ctx valid_children =
         Inl (ValueError ''Value is not within the set of available choices'')"
    by (simp add: ChoiceRequirement_validate_def py_contains_def not_None_contained)
qed

theorem validate_ignores_optional_witness:
  "(\<exists>m. InstanceRequirement_validate
      (PyObj IntRequirement [(''name'', PyStr ''depth''), (''description'', PyNone),
         (''default'', PyNone), (''optional'', PyBool True)])
      PyNone \<lparr>memory = []\<rparr> PyNone = Inl (TypeError m))
   \<and> InstanceRequirement_validate
      (PyObj IntRequirement [(''name'', PyStr ''depth''), (''description'', PyNone),
         (''default'', PyNone), (''optional'', PyBool True)])
      (PyInt 3) \<lparr>memory = []\<rparr> PyNone =
     InstanceRequirement_validate
      (PyObj IntRequirement [(''name'', PyStr ''depth''), (''description'', PyNone),
         (''default'', PyNone), (''optional'', PyBool False)])
      (PyInt 3) \<lparr>memory = []\<rparr> PyNone
   \<and> ChoiceRequirement_validate
      (PyObj ChoiceRequirement [(''name'', PyStr ''depth''), (''description'', PyNone),
         (''default'', PyNone), (''optional'', PyBool True),
         (''_choices'', PyList [PyStr ''fast'', PyStr ''full''])])
      PyNone \<lparr>memory = []\<rparr> PyNone =
     Inl (ValueError ''Value is not within the set of available choices'')"
proof -
  have c: "ChoiceRequirement_new (PyList [PyStr ''fast'', PyStr ''full'']) (PyStr ''depth'') PyNone
      PyNone (PyBool True) =
     Inr (PyObj ChoiceRequirement [(''name'', PyStr ''depth''), (''description'', PyNone),
         (''default'', PyNone), (''optional'', PyBool True),
         (''_choices'', PyList [PyStr ''fast'', PyStr ''full''])])"
    using ChoiceRequirement_new_strings [of "[''fast'', ''full'']"] by simp
  show ?thesis
    using c validate_ignores_optional [of IntRequirement IntType "PyStr ''depth''" PyNone PyNone
        "PyBool True" _ "PyBool False" _ "\<lparr>memory = []\<rparr>" PyNone "PyInt 3" PyNone
        "PyList [PyStr ''fast'', PyStr ''full'']" _]
    by (simp add: InstanceRequirement_new_eq)
qed

text \<open>
  Claim C2 as it is stated fails:
  \<^verbatim>\<open>IntRequirement("depth", optional = True).validate(None, ctx)\<close> raises
  \<^verbatim>\<open>TypeError\<close>.
\<close>

theorem optional_true_rejects_absent_value:
  "InstanceRequirement_new IntRequirement (PyStr ''depth'') PyNone PyNone (PyBool True) =
     Inr (PyObj IntRequirement [(''name'', PyStr ''depth''), (''description'', PyNone),
        (''default'', PyNone), (''optional'', PyBool True)])
   \<and> InstanceRequirement_validate
     (PyObj IntRequirement [(''name'', PyStr ''depth''), (''description'', PyNone),
        (''default'', PyNone), (''optional'', PyBool True)])
     PyNone \<lparr>memory = []\<rparr> PyNone = Inl (TypeError ''depth input only accepts int type'')"
  by (simp add: InstanceRequirement_new_eq InstanceRequirement_validate_def py_getattr_def
      py_isinstance_def isinstance_def py_add_str_def)

subsection \<open>ChoiceRequirement\<close>

text \<open>
  Claim C3, as the code has it. The constructor of \<^verbatim>\<open>ChoiceRequirement\<close> raises
  its \<^verbatim>\<open>TypeError\<close> exactly when \<open>choices\<close> is not a list of strings (not a list,
  or a list with an element that is not a str); every list of strings, the empty list
  included, is accepted and stored as \<open>_choices\<close>.
\<close>

theorem ChoiceRequirement_new_list_of_strings:
  "(ChoiceRequirement_new choices name description default' optional =
      Inl (TypeError ''ChoiceRequirement takes a list of strings as choices''))
     = (\<not> (\<exists>ss. choices = PyList (map PyStr ss)))
   \<and> ((\<exists>ss. choices = PyList (map PyStr ss)) \<longrightarrow>
       ChoiceRequirement_new choices name description default' optional =
         Inr (PyObj ChoiceRequirement [(''name'', name), (''description'', description),
           (''default'', default'), (''optional'', optional), (''_choices'', choices)]))"
  using ChoiceRequirement_new_cases [of choices name description default' optional]
  by (auto simp: ChoiceRequirement_new_strings)

theorem ChoiceRequirement_new_list_of_strings_witness:
  "ChoiceRequirement_new (PyList [PyStr ''fast'', PyStr ''full'']) (PyStr ''mode'') PyNone PyNone
     (PyBool False) =
     Inr (PyObj ChoiceRequirement [(''name'', PyStr ''mode''), (''description'', PyNone),
       (''default'', PyNone), (''optional'', PyBool False),
       (''_choices'', PyList [PyStr ''fast'', PyStr ''full''])])
   \<and> ChoiceRequirement_new (PyList [PyStr ''fast'', PyInt 3]) (PyStr ''mode'') PyNone PyNone
     (PyBool False) = Inl (TypeError ''ChoiceRequirement takes a list of strings as choices'')"
proof -
  have a: "\<exists>ss. PyList [PyStr ''fast'', PyStr ''full''] = PyList (map PyStr ss)"
    by (rule exI [of _ "[''fast'', ''full'']"]) simp
  have b: "\<not> (\<exists>ss. PyList [PyStr ''fast'', PyInt 3] = PyList (map PyStr ss))"
    by auto
  from a have "ChoiceRequirement_new (PyList [PyStr ''fast'', PyStr ''full'']) (PyStr ''mode'')
      PyNone PyNone (PyBool False) =
     Inr (PyObj ChoiceRequirement [(''name'', PyStr ''mode''), (''description'', PyNone),
       (''default'', PyNone), (''optional'', PyBool False),
       (''_choices'', PyList [PyStr ''fast'', PyStr ''full''])])"
    using ChoiceRequirement_new_list_of_strings [of "PyList [PyStr ''fast'', PyStr ''full'']"
        "PyStr ''mode''" PyNone PyNone "PyBool False"]
    by simp
  moreover from b have "ChoiceRequirement_new (PyList [PyStr ''fast'', PyInt 3]) (PyStr ''mode'')
      PyNone PyNone (PyBool False) =
      Inl (TypeError ''ChoiceRequirement takes a list of strings as choices'')"
    using ChoiceRequirement_new_list_of_strings [of "PyList [PyStr ''fast'', PyInt 3]"
        "PyStr ''mode''" PyNone PyNone "PyBool False"]
    by simp
  ultimately show ?thesis
    by (rule conjI)
qed

text \<open>
  Claim C3 as it is stated fails: \<^verbatim>\<open>ChoiceRequirement([], "mode")\<close> is constructed
  without an exception.
\<close>

theorem ChoiceRequirement_new_empty_succeeds:
  "ChoiceRequirement_new (PyList []) (PyStr ''mode'') PyNone PyNone (PyBool False) =
     Inr (PyObj ChoiceRequirement [(''name'', PyStr ''mode''), (''description'', PyNone),
       (''default'', PyNone), (''optional'', PyBool False), (''_choices'', PyList [])])"
  by (simp add: ChoiceRequirement_new_def ChoiceRequirement_init_def
      ConfigurationSchemaNode_init_def new_instance_def py_setattr_def py_iter_def isinstance_def)

subsection \<open>ListRequirement\<close>

text \<open>
  Claim C4, as the code has it, for every helper \<open>tc\<close>. The constructor of
  \<^verbatim>\<open>ListRequirement\<close> raises \<^verbatim>\<open>TypeError("ListRequirements cannot contain
  ListRequirements")\<close> when the element requirement is a \<^verbatim>\<open>ListRequirement\<close>.
  Otherwise its outcome is that of the type check of the element requirement against
  \<^verbatim>\<open>ConfigurationSchemaNode\<close>: when the check passes the instance is built and
  \<open>min_elements\<close> and \<open>max_elements\<close> are stored as they are given, without being
  compared; when the check raises, the constructor raises the same exception.
\<close>

theorem ListRequirement_new_checks:
  "(isinstance element_type (Req ListRequirement) \<longrightarrow>
      ListRequirement_new tc element_type max_elements min_elements name description default' optional =
        Inl (TypeError ''ListRequirements cannot contain ListRequirements''))
   \<and> (\<not> isinstance element_type (Req ListRequirement) \<longrightarrow>
       tc (PyObj ListRequirement [(''name'', name), (''description'', description),
             (''default'', default'), (''optional'', optional)])
          element_type (PyType ConfigurationSchemaNode) = Inr checked \<longrightarrow>
       ListRequirement_new tc element_type max_elements min_elements name description default' optional =
         Inr (PyObj ListRequirement [(''name'', name), (''description'', description),
                (''default'', default'), (''optional'', optional),
                (''element_type'', checked), (''min_elements'', min_elements),
                (''max_elements'', max_elements)]))
   \<and> (\<not> isinstance element_type (Req ListRequirement) \<longrightarrow>
       tc (PyObj ListRequirement [(''name'', name), (''description'', description),
             (''default'', default'), (''optional'', optional)])
          element_type (PyType ConfigurationSchemaNode) = Inl e \<longrightarrow>
       ListRequirement_new tc element_type max_elements min_elements name description default' optional =
         Inl e)"
  by (simp add: ListRequirement_new_eq)

theorem ListRequirement_new_checks_witness:
  "ListRequirement_new type_check
     (PyObj ListRequirement [(''name'', PyStr ''inner'')])
     (PyInt 2) (PyInt 0) (PyStr ''xs'') PyNone PyNone (PyBool False) =
     Inl (TypeError ''ListRequirements cannot contain ListRequirements'')
   \<and> ListRequirement_new type_check
     (PyObj IntRequirement [(''name'', PyStr ''n''), (''description'', PyNone),
          (''default'', PyNone), (''optional'', PyBool False)])
     (PyInt 2) (PyInt 0) (PyStr ''xs'') PyNone PyNone (PyBool False) =
     Inr (PyObj ListRequirement [(''name'', PyStr ''xs''), (''description'', PyNone),
            (''default'', PyNone), (''optional'', PyBool False),
            (''element_type'', PyObj IntRequirement [(''name'', PyStr ''n''),
               (''description'', PyNone), (''default'', PyNone), (''optional'', PyBool False)]),
            (''min_elements'', PyInt 0), (''max_elements'', PyInt 2)])
   \<and> ListRequirement_new type_check (PyStr ''int'')
     (PyInt 2) (PyInt 0) (PyStr ''xs'') PyNone PyNone (PyBool False) =
     Inl (TypeError ''ListRequirement expected ConfigurationSchemaNode'')"
  using
    ListRequirement_new_checks [where element_type = "PyObj ListRequirement [(''name'', PyStr ''inner'')]"
      and tc = type_check and max_elements = "PyInt 2" and min_elements = "PyInt 0"
      and name = "PyStr ''xs''" and description = PyNone and default' = PyNone
      and optional = "PyBool False"]
    ListRequirement_new_checks [where element_type = "PyObj IntRequirement [(''name'', PyStr ''n''),
         (''description'', PyNone), (''default'', PyNone), (''optional'', PyBool False)]"
      and tc = type_check and max_elements = "PyInt 2" and min_elements = "PyInt 0"
      and name = "PyStr ''xs''" and description = PyNone and default' = PyNone
      and optional = "PyBool False"
      and checked = "PyObj IntRequirement [(''name'', PyStr ''n''),
         (''description'', PyNone), (''default'', PyNone), (''optional'', PyBool False)]"]
    ListRequirement_new_checks [where element_type = "PyStr ''int''"
      and tc = type_check and max_elements = "PyInt 2" and min_elements = "PyInt 0"
      and name = "PyStr ''xs''" and description = PyNone and default' = PyNone
      and optional = "PyBool False"
      and e = "TypeError ''ListRequirement expected ConfigurationSchemaNode''"]
  by (simp add: type_check_def isinstance_def)

text \<open>
  Claim C4 as it is stated fails:
  \<^verbatim>\<open>ListRequirement(IntRequirement("n"), 1, 2, "xs")\<close>, with \<open>max_elements = 1\<close>
  and \<open>min_elements = 2\<close>, is constructed without an exception.
\<close>

theorem ListRequirement_new_inverted_bounds:
  "ListRequirement_new type_check
     (PyObj IntRequirement [(''name'', PyStr ''n''), (''description'', PyNone),
          (''default'', PyNone), (''optional'', PyBool False)])
     (PyInt 1) (PyInt 2) (PyStr ''xs'') PyNone PyNone (PyBool False) =
     Inr (PyObj ListRequirement [(''name'', PyStr ''xs''), (''description'', PyNone),
            (''default'', PyNone), (''optional'', PyBool False),
            (''element_type'', PyObj IntRequirement [(''name'', PyStr ''n''),
               (''description'', PyNone), (''default'', PyNone), (''optional'', PyBool False)]),
            (''min_elements'', PyInt 2), (''max_elements'', PyInt 1)])"
  by (simp add: ListRequirement_new_eq type_check_def isinstance_def)




text \<open>
  Where the helper raises for an element at line 91, its exception is the outcome: such
  a failure is not reported as \<open>ElementInvalid\<close> either.
\<close>

lemma ListRequirement_validate_check_raises:
  assumes "tc self v (PyType ListType) = Inr checked"
    and "py_iter v = Inr elements"
    and "type_check_elements tc self elements = Inl e"
  shows "ListRequirement_validate tc self v ctx valid_children = Inl e"
  using assms by (simp add: ListRequirement_validate.simps)

subsection \<open>DisjunctionRequirement and ConjunctionRequirement\<close>

text \<open>
  Claim C6, as the code has it. Without child results (\<^verbatim>\<open>None\<close>) the disjunction
  raises \<open>MissingChildResults\<close>. Given a sequence of booleans it succeeds when some
  entry is true and raises \<open>NoValidChild\<close> otherwise, so for \<^verbatim>\<open>[False, False]\<close>
  and also for the empty sequence \<^verbatim>\<open>[]\<close>; \<^verbatim>\<open>[False, True]\<close> succeeds.
\<close>

theorem DisjunctionRequirement_validate_results:
  "DisjunctionRequirement_validate self v ctx PyNone =
     Inl (ValueError ''A Disjunction requirement cannot exist without children'')
   \<and> DisjunctionRequirement_validate self v ctx (PyList (map PyBool bs)) =
     (if True \<in> set bs then Inr ()
      else Inl (ValueError ''No valid children to support the Disjunction Requirement''))"
  by (simp add: DisjunctionRequirement_validate_def py_iter_def list_ex_truthy_bools)

theorem DisjunctionRequirement_validate_results_witness:
  "DisjunctionRequirement_validate PyNone PyNone \<lparr>memory = []\<rparr> (PyList [PyBool False, PyBool False]) =
     Inl (ValueError ''No valid children to support the Disjunction Requirement'')
   \<and> DisjunctionRequirement_validate PyNone PyNone \<lparr>memory = []\<rparr> (PyList [PyBool False, PyBool True]) =
     Inr ()
   \<and> DisjunctionRequirement_validate PyNone PyNone \<lparr>memory = []\<rparr> PyNone =
     Inl (ValueError ''A Disjunction requirement cannot exist without children'')
   \<and> DisjunctionRequirement_validate PyNone PyNone \<lparr>memory = []\<rparr> (PyList []) =
     Inl (ValueError ''No valid children to support the Disjunction Requirement'')"
  using DisjunctionRequirement_validate_results [of PyNone PyNone "\<lparr>memory = []\<rparr>" "[False, False]"]
    DisjunctionRequirement_validate_results [of PyNone PyNone "\<lparr>memory = []\<rparr>" "[False, True]"]
    DisjunctionRequirement_validate_results [of PyNone PyNone "\<lparr>memory = []\<rparr>" "[]"]
  by simp

text \<open>
  Claim C6 as it is stated fails: for the empty sequence the disjunction raises
  \<open>NoValidChild\<close>, not \<open>MissingChildResults\<close>.
\<close>

theorem DisjunctionRequirement_validate_empty_not_missing:
  "DisjunctionRequirement_validate PyNone PyNone \<lparr>memory = []\<rparr> (PyList []) =
     Inl (ValueError ''No valid children to support the Disjunction Requirement'')
   \<and> DisjunctionRequirement_validate PyNone PyNone \<lparr>memory = []\<rparr> (PyList []) \<noteq>
     Inl (ValueError ''A Disjunction requirement cannot exist without children'')"
  by (simp add: DisjunctionRequirement_validate_def py_iter_def)

text \<open>
  Claim C7. Without child results (\<^verbatim>\<open>None\<close>) the conjunction raises
  \<open>MissingChildResults\<close>; given a sequence of booleans it raises \<open>AnyChildInvalid\<close>
  when some entry is false, and it succeeds exactly when all entries are true.
\<close>

theorem ConjunctionRequirement_validate_results:
  "ConjunctionRequirement_validate self v ctx PyNone =
     Inl (ValueError ''A Conjunction requirement cannot exist without children'')
   \<and> ConjunctionRequirement_validate self v ctx (PyList (map PyBool bs)) =
     (if False \<in> set bs then Inl (ValueError ''An invalid child prevents the Conjunction Requirement'')
      else Inr ())
   \<and> (ConjunctionRequirement_validate self v ctx (PyList (map PyBool bs)) = Inr ()) =
     (\<forall>b \<in> set bs. b)"
  by (simp add: ConjunctionRequirement_validate_def py_iter_def list_all_truthy_bools all_true_iff)

theorem ConjunctionRequirement_validate_results_witness:
  "ConjunctionRequirement_validate PyNone PyNone \<lparr>memory = []\<rparr> (PyList [PyBool True, PyBool True]) =
     Inr ()
   \<and> ConjunctionRequirement_validate PyNone PyNone \<lparr>memory = []\<rparr> (PyList [PyBool True, PyBool False]) =
     Inl (ValueError ''An invalid child prevents the Conjunction Requirement'')
   \<and> ConjunctionRequirement_validate PyNone PyNone \<lparr>memory = []\<rparr> PyNone =
     Inl (ValueError ''A Conjunction requirement cannot exist without children'')"
  using ConjunctionRequirement_validate_results [of PyNone PyNone "\<lparr>memory = []\<rparr>" "[True, True]"]
    ConjunctionRequirement_validate_results [of PyNone PyNone "\<lparr>memory = []\<rparr>" "[True, False]"]
  by simp

text \<open>
  Claim C10. Given the empty sequence \<^verbatim>\<open>[]\<close> the conjunction succeeds, whereas the
  disjunction raises \<open>NoValidChild\<close>; the conjunction does not treat the empty sequence
  as it treats absent child results.
\<close>

theorem empty_child_results:
  "ConjunctionRequirement_validate self v ctx (PyList []) = Inr ()
   \<and> DisjunctionRequirement_validate self' v' ctx' (PyList []) =
     Inl (ValueError ''No valid children to support the Disjunction Requirement'')
   \<and> ConjunctionRequirement_validate self v ctx (PyList []) \<noteq>
     ConjunctionRequirement_validate self v ctx PyNone"
  by (simp add: ConjunctionRequirement_validate_def DisjunctionRequirement_validate_def py_iter_def)

subsection \<open>TranslationLayerRequirement\<close>

text \<open>
  Claim C8. \<^verbatim>\<open>TranslationLayerRequirement.validate\<close> raises \<^verbatim>\<open>TypeError\<close> for a
  value that is not a str, raises \<^verbatim>\<open>IndexError\<close> for a str that is not registered
  in \<^verbatim>\<open>context.memory\<close>, and succeeds for a str that is registered.
\<close>

theorem TranslationLayerRequirement_validate_results:
  "((\<forall>s. v \<noteq> PyStr s) \<longrightarrow>
      TranslationLayerRequirement_validate self v ctx valid_children =
        Inl (TypeError ''TranslationLayerRequirements only accepts string labels''))
   \<and> (s \<notin> set (memory ctx) \<longrightarrow>
      TranslationLayerRequirement_validate self (PyStr s) ctx valid_children =
        Inl (IndexError (s @ '' is not a memory layer'')))
   \<and> (s \<in> set (memory ctx) \<longrightarrow>
      TranslationLayerRequirement_validate self (PyStr s) ctx valid_children = Inr ())"
proof -
  have "\<not> isinstance v StrType" if "\<forall>s. v \<noteq> PyStr s"
    using that by (cases v) (simp_all add: isinstance_StrType)
  then show ?thesis
    by (auto simp: TranslationLayerRequirement_validate_def isinstance_StrType memory_contains_def
        py_add_str_def)
qed

theorem TranslationLayerRequirement_validate_results_witness:
  "TranslationLayerRequirement_validate PyNone (PyStr ''layer1'')
     \<lparr>memory = [''layer1'', ''layer2'']\<rparr> PyNone = Inr ()
   \<and> TranslationLayerRequirement_validate PyNone (PyStr ''layer9'')
     \<lparr>memory = [''layer1'', ''layer2'']\<rparr> PyNone = Inl (IndexError ''layer9 is not a memory layer'')
   \<and> TranslationLayerRequirement_validate PyNone (PyInt 42)
     \<lparr>memory = [''layer1'', ''layer2'']\<rparr> PyNone =
     Inl (TypeError ''TranslationLayerRequirements only accepts string labels'')"
  using TranslationLayerRequirement_validate_results [of "PyStr ''layer1''" PyNone
      "\<lparr>memory = [''layer1'', ''layer2'']\<rparr>" PyNone "''layer1''"]
    TranslationLayerRequirement_validate_results [of "PyStr ''layer9''" PyNone
      "\<lparr>memory = [''layer1'', ''layer2'']\<rparr>" PyNone "''layer9''"]
    TranslationLayerRequirement_validate_results [of "PyInt 42" PyNone
      "\<lparr>memory = [''layer1'', ''layer2'']\<rparr>" PyNone "''layer9''"]
  by simp

text \<open>
  Claim C9. The constructor of \<^verbatim>\<open>TranslationLayerRequirement\<close> runs the initializer
  of the base class with \<open>name\<close> as its receiver. If that call raises, the constructor
  raises the same exception. If the constructor returns, the four attributes were stored
  on the object passed as \<open>name\<close> (the second component of the result), and the new
  instance has gone through \<^verbatim>\<open>Configurable.__init__\<close> and the assignment of
  \<open>_layer_name\<close> only: its attributes \<open>name\<close>, \<open>description\<close>, \<open>default\<close> and
  \<open>optional\<close> are what \<^verbatim>\<open>Configurable.__init__\<close> made of a fresh instance,
  whatever the arguments of the constructor are.
\<close>

theorem TranslationLayerRequirement_init_receiver:
  "(ConfigurationSchemaNode_init name description default' optional (PyBool False) = Inl e \<longrightarrow>
      TranslationLayerRequirement_new Configurable_init name description default' optional
        layer_name = Inl e)
   \<and> (TranslationLayerRequirement_new Configurable_init name description default' optional
        layer_name = Inr (self', name') \<longrightarrow>
      ConfigurationSchemaNode_init name description default' optional (PyBool False) = Inr name'
      \<and> (\<exists>self1. Configurable_init (new_instance TranslationLayerRequirement) = Inr self1
           \<and> py_setattr self1 ''_layer_name'' layer_name = Inr self'
           \<and> (\<forall>a \<in> {''name'', ''description'', ''default'', ''optional''}.
                py_getattr self' a = py_getattr self1 a)))"
proof (intro conjI impI)
  assume "ConfigurationSchemaNode_init name description default' optional (PyBool False) = Inl e"
  then show "TranslationLayerRequirement_new Configurable_init name description default' optional
      layer_name = Inl e"
    by (simp add: TranslationLayerRequirement_new_def TranslationLayerRequirement_init_def)
next
  assume run: "TranslationLayerRequirement_new Configurable_init name description default' optional
      layer_name = Inr (self', name')"
  then obtain self1 where
    base: "ConfigurationSchemaNode_init name description default' optional (PyBool False) = Inr name'"
    and cfg: "Configurable_init (new_instance TranslationLayerRequirement) = Inr self1"
    and set: "py_setattr self1 ''_layer_name'' layer_name = Inr self'"
    by (auto simp: TranslationLayerRequirement_new_def TranslationLayerRequirement_init_def
        split: sum.splits)
  show "ConfigurationSchemaNode_init name description default' optional (PyBool False) = Inr name'"
    by (rule base)
  have "\<forall>a \<in> {''name'', ''description'', ''default'', ''optional''}.
      py_getattr self' a = py_getattr self1 a"
    using py_setattr_other [OF set] by simp
  with cfg set show "\<exists>self1. Configurable_init (new_instance TranslationLayerRequirement) = Inr self1
      \<and> py_setattr self1 ''_layer_name'' layer_name = Inr self'
      \<and> (\<forall>a \<in> {''name'', ''description'', ''default'', ''optional''}.
           py_getattr self' a = py_getattr self1 a)"
    by blast
qed

theorem TranslationLayerRequirement_init_receiver_witness:
  "TranslationLayerRequirement_new Inr (PyStr ''layer'') PyNone PyNone (PyBool False) PyNone =
     Inl (AttributeError ''str object has no attribute name'')
   \<and> TranslationLayerRequirement_new Inr (PyObj IntRequirement []) (PyStr ''d'') PyNone (PyBool True)
     (PyStr ''L'') =
     Inr (PyObj TranslationLayerRequirement [(''_layer_name'', PyStr ''L'')],
          PyObj IntRequirement [(''name'', PyStr ''d''), (''description'', PyNone),
            (''default'', PyBool True), (''optional'', PyBool False)])
   \<and> ConfigurationSchemaNode_init (PyObj IntRequirement []) (PyStr ''d'') PyNone (PyBool True)
       (PyBool False) =
     Inr (PyObj IntRequirement [(''name'', PyStr ''d''), (''description'', PyNone),
            (''default'', PyBool True), (''optional'', PyBool False)])
   \<and> py_getattr (PyObj TranslationLayerRequirement [(''_layer_name'', PyStr ''L'')]) ''name'' =
     Inl (AttributeError ''TranslationLayerRequirement object has no attribute name'')"
proof -
  have base: "ConfigurationSchemaNode_init (PyStr ''layer'') PyNone PyNone (PyBool False)
      (PyBool False) = Inl (AttributeError ''str object has no attribute name'')"
    by (simp add: ConfigurationSchemaNode_init_def py_setattr_def)
  have run: "TranslationLayerRequirement_new Inr (PyObj IntRequirement []) (PyStr ''d'') PyNone
      (PyBool True) (PyStr ''L'') =
     Inr (PyObj TranslationLayerRequirement [(''_layer_name'', PyStr ''L'')],
          PyObj IntRequirement [(''name'', PyStr ''d''), (''description'', PyNone),
            (''default'', PyBool True), (''optional'', PyBool False)])"
    by (simp add: TranslationLayerRequirement_new_def TranslationLayerRequirement_init_def
        ConfigurationSchemaNode_init_def new_instance_def py_setattr_def)
  show ?thesis
    using base run
      TranslationLayerRequirement_init_receiver [where name = "PyStr ''layer''" and description = PyNone and default' = PyNone
        and optional = "PyBool False" and layer_name = PyNone and Configurable_init = Inr
        and e = "AttributeError ''str object has no attribute name''"]
      TranslationLayerRequirement_init_receiver [where name = "PyObj IntRequirement []" and description = "PyStr ''d''"
        and default' = PyNone and optional = "PyBool True" and layer_name = "PyStr ''L''"
        and Configurable_init = Inr
        and self' = "PyObj TranslationLayerRequirement [(''_layer_name'', PyStr ''L'')]"
        and name' = "PyObj IntRequirement [(''name'', PyStr ''d''), (''description'', PyNone),
            (''default'', PyBool True), (''optional'', PyBool False)]"]
    by (simp add: py_getattr_def)
qed

text \<open>
  With a str as \<open>name\<close>, the intended use, the misdirected call raises: a str has no
  attribute to assign.
\<close>

lemma TranslationLayerRequirement_new_str_name:
  "TranslationLayerRequirement_new Configurable_init (PyStr n) description default' optional
     layer_name = Inl (AttributeError ''str object has no attribute name'')"
  by (simp add: TranslationLayerRequirement_new_def TranslationLayerRequirement_init_def
      ConfigurationSchemaNode_init_def py_setattr_def)

end
